theory Spec2Isabelle
  imports Main
begin

section \<open>Python objects seen by \<^verbatim>\<open>rest_framework/utils/field_mapping.py\<close>\<close>

subsection \<open>Classes and \<^verbatim>\<open>isinstance\<close>\<close>

text \<open>
  A class object is its module, its \<^verbatim>\<open>__name__\<close> and the classes that follow it in its
  method resolution order. \<^verbatim>\<open>inspect.getmro(cls)\<close> returns \<^verbatim>\<open>cls.__mro__\<close>, which
  starts with the class itself, so it is never empty. \<^verbatim>\<open>isinstance(obj, C)\<close> holds when
  \<^verbatim>\<open>C\<close> occurs in the method resolution order of the class of \<^verbatim>\<open>obj\<close>; the function
  below takes that class.
\<close>

datatype pyclass =
  PyClass (cls_module: string) (cls_name: string) (cls_supers: "pyclass list")

definition getmro :: "pyclass \<Rightarrow> pyclass list" where
  "getmro cls = cls # cls_supers cls"

definition isinstance :: "pyclass \<Rightarrow> pyclass \<Rightarrow> bool" where
  "isinstance obj_class cls = (cls \<in> set (getmro obj_class))"

text \<open>
  The classes the module tests against. They are declared in \<^verbatim>\<open>django.db.models\<close> and
  \<^verbatim>\<open>django.core.validators\<close>; the linearisations are the ones of those declarations.
\<close>

definition object_cls :: pyclass where
  "object_cls = PyClass ''builtins'' ''object'' []"

definition RegisterLookupMixin :: pyclass where
  "RegisterLookupMixin = PyClass ''django.db.models.lookups'' ''RegisterLookupMixin'' [object_cls]"

definition Field :: pyclass where
  "Field = PyClass ''django.db.models.fields'' ''Field'' [RegisterLookupMixin, object_cls]"

definition AutoField :: pyclass where
  "AutoField = PyClass ''django.db.models.fields'' ''AutoField'' (getmro Field)"

definition CharField :: pyclass where
  "CharField = PyClass ''django.db.models.fields'' ''CharField'' (getmro Field)"

definition TextField :: pyclass where
  "TextField = PyClass ''django.db.models.fields'' ''TextField'' (getmro Field)"

definition NullBooleanField :: pyclass where
  "NullBooleanField = PyClass ''django.db.models.fields'' ''NullBooleanField'' (getmro Field)"

definition URLField :: pyclass where
  "URLField = PyClass ''django.db.models.fields'' ''URLField'' (getmro CharField)"

definition EmailField :: pyclass where
  "EmailField = PyClass ''django.db.models.fields'' ''EmailField'' (getmro CharField)"

definition SlugField :: pyclass where
  "SlugField = PyClass ''django.db.models.fields'' ''SlugField'' (getmro CharField)"

definition BaseValidator :: pyclass where
  "BaseValidator = PyClass ''django.core.validators'' ''BaseValidator'' [object_cls]"

definition MaxLengthValidator :: pyclass where
  "MaxLengthValidator =
     PyClass ''django.core.validators'' ''MaxLengthValidator'' (getmro BaseValidator)"

definition MinLengthValidator :: pyclass where
  "MinLengthValidator =
     PyClass ''django.core.validators'' ''MinLengthValidator'' (getmro BaseValidator)"

definition MaxValueValidator :: pyclass where
  "MaxValueValidator =
     PyClass ''django.core.validators'' ''MaxValueValidator'' (getmro BaseValidator)"

definition MinValueValidator :: pyclass where
  "MinValueValidator =
     PyClass ''django.core.validators'' ''MinValueValidator'' (getmro BaseValidator)"

definition RegexValidator :: pyclass where
  "RegexValidator = PyClass ''django.core.validators'' ''RegexValidator'' [object_cls]"

definition URLValidator :: pyclass where
  "URLValidator = PyClass ''django.core.validators'' ''URLValidator'' (getmro RegexValidator)"

definition EmailValidator :: pyclass where
  "EmailValidator = PyClass ''django.core.validators'' ''EmailValidator'' [object_cls]"

text \<open>
  Modelled from the spec: \<^verbatim>\<open>rest_framework.validators.UniqueValidator\<close> is imported by the
  module but its declaration is not among the sources. The spec calls it the uniqueness
  validator that is injected into the validator list; it is a class of its own, directly
  under \<^verbatim>\<open>object\<close>.
\<close>

definition UniqueValidator_cls :: pyclass where
  "UniqueValidator_cls = PyClass ''rest_framework.validators'' ''UniqueValidator'' [object_cls]"

subsection \<open>Models, managers, validators and model fields\<close>

text \<open>A model class, as far as the module reads it: \<^verbatim>\<open>model._meta.app_label\<close> and
  \<^verbatim>\<open>model._meta.object_name\<close>. Its \<^verbatim>\<open>_default_manager\<close> is kept as a reference to the
  model it belongs to.\<close>

record pymodel =
  app_label :: string
  object_name :: string

datatype manager = DefaultManager pymodel

text \<open>
  A validator object. The module compares validators by identity with the two module-level
  objects \<^verbatim>\<open>validators.validate_email\<close> and \<^verbatim>\<open>validators.validate_slug\<close>, tests the
  class of any validator with \<^verbatim>\<open>isinstance\<close>, reads \<^verbatim>\<open>limit_value\<close> (which may be
  \<^verbatim>\<open>None\<close>) and constructs \<^verbatim>\<open>UniqueValidator(queryset=...)\<close>. Any other validator of
  a field is an \<open>Instance\<close> of its class.
\<close>

datatype validator =
    validate_email
  | validate_slug
  | Instance pyclass "int option"
  | UniqueValidator manager

fun validator_class :: "validator \<Rightarrow> pyclass" where
  "validator_class validate_email = EmailValidator"
| "validator_class validate_slug = RegexValidator"
| "validator_class (Instance cls lim) = cls"
| "validator_class (UniqueValidator qs) = UniqueValidator_cls"

fun limit_value :: "validator \<Rightarrow> int option" where
  "limit_value (Instance cls lim) = lim"
| "limit_value v = None"

text \<open>
  The model field descriptor, with the attributes the module reads. An attribute read with
  \<^verbatim>\<open>getattr(model_field, name, None)\<close> is an option: \<open>None\<close> when the attribute is
  missing or holds \<^verbatim>\<open>None\<close>. \<open>has_default\<close> is the result of the method call
  \<^verbatim>\<open>model_field.has_default()\<close>, \<open>unique\<close> the truth value of
  \<^verbatim>\<open>getattr(model_field, 'unique', False)\<close>, and the remaining flags the truth values of
  the attributes.
\<close>

record model_field =
  field_class :: pyclass
  verbose_name :: string
  help_text :: string
  max_digits :: "int option"
  decimal_places :: "int option"
  editable :: bool
  has_default :: bool
  blank :: bool
  null :: bool
  flatchoices :: "(string \<times> string) list"
  max_length :: "int option"
  validators :: "validator list"
  unique :: bool
  model :: pymodel

text \<open>The values stored in a keyword-argument mapping, and the mapping itself.\<close>

datatype pyvalue =
    VBool bool
  | VInt int
  | VStr string
  | VDict "(string \<times> string) list"
  | VChoices "(string \<times> string) list"
  | VField model_field
  | VValidators "validator list"
  | VManager manager

type_synonym kwargs = "string \<rightharpoonup> pyvalue"

subsection \<open>Strings\<close>

text \<open>
  A Python string is represented by the bytes of its encoding in UTF-8. What the module
  itself does with strings acts on the encoding as it acts on the text: the test for the
  empty string, comparison, concatenation, and the replacement of \<^verbatim>\<open>'_'\<close> by
  \<^verbatim>\<open>' '\<close> (both are single bytes, and no byte of a longer sequence equals them).
\<close>

text \<open>\<^verbatim>\<open>s.replace(old, new)\<close> for single ASCII characters.\<close>

definition replace :: "char \<Rightarrow> char \<Rightarrow> string \<Rightarrow> string" where
  "replace old new s = map (\<lambda>c. if c = old then new else c) s"

text \<open>
  The case mappings are not the module's own: \<^verbatim>\<open>capfirst\<close> is imported from
  \<^verbatim>\<open>django.utils.text\<close>, and \<^verbatim>\<open>str.capitalize\<close> and \<^verbatim>\<open>str.lower\<close> are methods of
  the Python string type, which follow the Unicode case tables. They are parameters of the
  model: every function of the module that calls one of them takes the three functions as
  its first argument, and every property below is about all such functions.
\<close>

record text_functions =
  capfirst :: "string \<Rightarrow> string"
  capitalize :: "string \<Rightarrow> string"
  lower :: "string \<Rightarrow> string"

section \<open>The module\<close>

subsection \<open>\<^verbatim>\<open>ClassLookupDict\<close>\<close>

datatype error = KeyError "string list"

text \<open>
  The key of a lookup: the class of the object and, when the object has the attribute,
  its \<^verbatim>\<open>_proxy_class\<close>.
\<close>

record lookup_key =
  key_class :: pyclass
  proxy_class :: "pyclass option"

text \<open>The \<^verbatim>\<open>for\<close> loop of \<^verbatim>\<open>__getitem__\<close>: the value of the first class of the list
  that is a key of the mapping.\<close>

fun lookup_mro :: "(pyclass \<rightharpoonup> 'v) \<Rightarrow> pyclass list \<Rightarrow> 'v option" where
  "lookup_mro mapping [] = None"
| "lookup_mro mapping (cls # rest) =
     (if cls \<in> dom mapping then mapping cls else lookup_mro mapping rest)"

text \<open>Lines 24 to 29: the class whose method resolution order is searched.\<close>

definition lookup_base_class :: "lookup_key \<Rightarrow> pyclass" where
  "lookup_base_class key =
     (case proxy_class key of
        Some proxy \<Rightarrow> proxy
      | None \<Rightarrow> key_class key)"

text \<open>When the loop ends without a hit, \<^verbatim>\<open>cls\<close> is the last class it visited.\<close>

definition getitem :: "(pyclass \<rightharpoonup> 'v) \<Rightarrow> lookup_key \<Rightarrow> error + 'v" where
  "getitem mapping key =
     (let base_class = lookup_base_class key
      in case lookup_mro mapping (getmro base_class) of
           Some v \<Rightarrow> Inr v
         | None \<Rightarrow>
             Inl (KeyError [''Class %s not found in lookup.'',
                            cls_name (last (getmro base_class))]))"

subsection \<open>\<^verbatim>\<open>needs_label\<close> and \<^verbatim>\<open>get_detail_view_name\<close>\<close>

definition needs_label :: "text_functions \<Rightarrow> model_field \<Rightarrow> string \<Rightarrow> bool" where
  "needs_label py model_field field_name =
     (let default_label = capitalize py (replace CHR ''_'' CHR '' '' field_name)
      in capfirst py (verbose_name model_field) \<noteq> default_label)"

text \<open>
  \<^verbatim>\<open>'%(model_name)s-detail' % args\<close>: the format string names the key
  \<^verbatim>\<open>model_name\<close> and no other; a dictionary without that key raises
  \<^verbatim>\<open>KeyError\<close>, and entries under other keys are ignored.
\<close>

definition format_detail :: "(string \<rightharpoonup> string) \<Rightarrow> error + string" where
  "format_detail args =
     (case args ''model_name'' of
        None \<Rightarrow> Inl (KeyError [''model_name''])
      | Some model_name \<Rightarrow> Inr (model_name @ ''-detail''))"

definition get_detail_view_name :: "text_functions \<Rightarrow> pymodel \<Rightarrow> error + string" where
  "get_detail_view_name py model_cls =
     format_detail [''app_label'' \<mapsto> app_label model_cls,
                    ''model_name'' \<mapsto> lower py (object_name model_cls)]"

subsection \<open>\<^verbatim>\<open>get_field_kwargs\<close>\<close>

text \<open>Lines 61 to 83: the keys set ahead of the read-only return.\<close>

definition common_kwargs :: "text_functions \<Rightarrow> string \<Rightarrow> model_field \<Rightarrow> kwargs" where
  "common_kwargs py field_name model_field =
     (let kwargs = Map.empty;
          kwargs = kwargs(''model_field'' \<mapsto> VField model_field);
          kwargs = (if verbose_name model_field \<noteq> [] \<and> needs_label py model_field field_name
                    then kwargs(''label'' \<mapsto> VStr (capfirst py (verbose_name model_field)))
                    else kwargs);
          kwargs = (if help_text model_field \<noteq> []
                    then kwargs(''help_text'' \<mapsto> VStr (help_text model_field))
                    else kwargs);
          kwargs = (case max_digits model_field of
                      Some n \<Rightarrow> kwargs(''max_digits'' \<mapsto> VInt n)
                    | None \<Rightarrow> kwargs);
          kwargs = (case decimal_places model_field of
                      Some n \<Rightarrow> kwargs(''decimal_places'' \<mapsto> VInt n)
                    | None \<Rightarrow> kwargs);
          kwargs = (if isinstance (field_class model_field) TextField
                    then kwargs(''style'' \<mapsto> VDict [(''base_template'', ''textarea.html'')])
                    else kwargs)
      in kwargs)"

text \<open>Lines 91 to 98: \<^verbatim>\<open>required\<close>, \<^verbatim>\<open>allow_null\<close> and \<^verbatim>\<open>allow_blank\<close>.\<close>

definition required_kwargs :: "model_field \<Rightarrow> kwargs \<Rightarrow> kwargs" where
  "required_kwargs model_field kwargs =
     (let kwargs = (if has_default model_field \<or> blank model_field \<or> null model_field
                    then kwargs(''required'' \<mapsto> VBool False)
                    else kwargs);
          kwargs = (if null model_field
                       \<and> \<not> isinstance (field_class model_field) NullBooleanField
                    then kwargs(''allow_null'' \<mapsto> VBool True)
                    else kwargs);
          kwargs = (if blank model_field
                    then kwargs(''allow_blank'' \<mapsto> VBool True)
                    else kwargs)
      in kwargs)"

text \<open>
  \<^verbatim>\<open>next((v.limit_value for v in validator_kwarg if isinstance(v, cls)), None)\<close>: the
  limit of the first validator of the class, if there is one.
\<close>

definition first_limit_value :: "pyclass \<Rightarrow> validator list \<Rightarrow> int option" where
  "first_limit_value cls validator_kwarg =
     (case filter (\<lambda>validator. isinstance (validator_class validator) cls) validator_kwarg of
        [] \<Rightarrow> None
      | validator # rest \<Rightarrow> limit_value validator)"

text \<open>\<^verbatim>\<open>[v for v in validator_kwarg if not isinstance(v, cls)]\<close>.\<close>

definition without_class :: "pyclass \<Rightarrow> validator list \<Rightarrow> validator list" where
  "without_class cls validator_kwarg =
     filter (\<lambda>validator. \<not> isinstance (validator_class validator) cls) validator_kwarg"

text \<open>Lines 108 to 114: \<^verbatim>\<open>max_length\<close>, for a \<^verbatim>\<open>CharField\<close>.\<close>

definition max_length_kwargs ::
  "model_field \<Rightarrow> kwargs \<times> validator list \<Rightarrow> kwargs \<times> validator list" where
  "max_length_kwargs model_field st =
     (case st of (kwargs, validator_kwarg) \<Rightarrow>
        (case max_length model_field of
           Some n \<Rightarrow>
             if isinstance (field_class model_field) CharField
             then (kwargs(''max_length'' \<mapsto> VInt n),
                   without_class MaxLengthValidator validator_kwarg)
             else (kwargs, validator_kwarg)
         | None \<Rightarrow> (kwargs, validator_kwarg)))"

text \<open>
  Lines 118 to 127, 131 to 140 and 144 to 153 are the same block for \<^verbatim>\<open>min_length\<close>,
  \<^verbatim>\<open>max_value\<close> and \<^verbatim>\<open>min_value\<close>: the limit of the first validator of the class
  becomes the keyword, and the validators of that class are dropped.
\<close>

definition limit_kwargs ::
  "string \<Rightarrow> pyclass \<Rightarrow> kwargs \<times> validator list \<Rightarrow> kwargs \<times> validator list" where
  "limit_kwargs name cls st =
     (case st of (kwargs, validator_kwarg) \<Rightarrow>
        (case first_limit_value cls validator_kwarg of
           Some n \<Rightarrow> (kwargs(name \<mapsto> VInt n), without_class cls validator_kwarg)
         | None \<Rightarrow> (kwargs, validator_kwarg)))"

text \<open>Lines 157 to 176: validators that the URL, email and slug serializer fields add
  themselves.\<close>

definition implied_validators_removed :: "model_field \<Rightarrow> validator list \<Rightarrow> validator list" where
  "implied_validators_removed model_field validator_kwarg =
     (let validator_kwarg = (if isinstance (field_class model_field) URLField
                             then without_class URLValidator validator_kwarg
                             else validator_kwarg);
          validator_kwarg = (if isinstance (field_class model_field) EmailField
                             then filter (\<lambda>validator. validator \<noteq> validate_email) validator_kwarg
                             else validator_kwarg);
          validator_kwarg = (if isinstance (field_class model_field) SlugField
                             then filter (\<lambda>validator. validator \<noteq> validate_slug) validator_kwarg
                             else validator_kwarg)
      in validator_kwarg)"

text \<open>Lines 178 to 180.\<close>

definition unique_validator_added :: "model_field \<Rightarrow> validator list \<Rightarrow> validator list" where
  "unique_validator_added model_field validator_kwarg =
     (if unique model_field
      then validator_kwarg @ [UniqueValidator (DefaultManager (model model_field))]
      else validator_kwarg)"

text \<open>Lines 106 to 180: the keyword mapping and the validator list that reach line 182.\<close>

definition validator_kwargs ::
  "model_field \<Rightarrow> kwargs \<times> validator list \<Rightarrow> kwargs \<times> validator list" where
  "validator_kwargs model_field st =
     (let st = max_length_kwargs model_field st;
          st = limit_kwargs ''min_length'' MinLengthValidator st;
          st = limit_kwargs ''max_value'' MaxValueValidator st;
          st = limit_kwargs ''min_value'' MinValueValidator st
      in case st of (kwargs, validator_kwarg) \<Rightarrow>
           (kwargs,
            unique_validator_added model_field
              (implied_validators_removed model_field validator_kwarg)))"

definition get_field_kwargs :: "text_functions \<Rightarrow> string \<Rightarrow> model_field \<Rightarrow> kwargs" where
  "get_field_kwargs py field_name model_field =
     (let validator_kwarg = validators model_field;
          kwargs = common_kwargs py field_name model_field
      in if isinstance (field_class model_field) AutoField \<or> \<not> editable model_field
         then kwargs(''read_only'' \<mapsto> VBool True)
         else
           let kwargs = required_kwargs model_field kwargs
           in if flatchoices model_field \<noteq> []
              then kwargs(''choices'' \<mapsto> VChoices (flatchoices model_field))
              else
                case validator_kwargs model_field (kwargs, validator_kwarg) of
                  (kwargs, validator_kwarg) \<Rightarrow>
                    if validator_kwarg \<noteq> []
                    then kwargs(''validators'' \<mapsto> VValidators validator_kwarg)
                    else kwargs)"

text \<open>The validator list that reaches line 182 for a field: what is left of
  \<^verbatim>\<open>model_field.validators\<close> after the extraction of the limits, the removal of the
  implied validators and the addition of the uniqueness validator.\<close>

definition remaining_validators :: "model_field \<Rightarrow> validator list" where
  "remaining_validators model_field =
     snd (validator_kwargs model_field (Map.empty, validators model_field))"

subsection \<open>\<^verbatim>\<open>get_relation_kwargs\<close> and the two small builders\<close>

text \<open>Python's truth value of a stored value, for \<^verbatim>\<open>kwargs.get('read_only', False)\<close>.\<close>

fun truthy :: "pyvalue \<Rightarrow> bool" where
  "truthy (VBool b) = b"
| "truthy (VInt n) = (n \<noteq> 0)"
| "truthy (VStr s) = (s \<noteq> [])"
| "truthy (VDict d) = (d \<noteq> [])"
| "truthy (VChoices cs) = (cs \<noteq> [])"
| "truthy (VField f) = True"
| "truthy (VValidators vs) = (vs \<noteq> [])"
| "truthy (VManager m) = True"

text \<open>\<^verbatim>\<open>kwargs.get('validators', [])\<close>; the only value line 223 stores under the key is
  a validator list.\<close>

definition get_validators :: "kwargs \<Rightarrow> validator list" where
  "get_validators kwargs =
     (case kwargs ''validators'' of
        Some (VValidators vs) \<Rightarrow> vs
      | _ \<Rightarrow> [])"

text \<open>Lines 206 to 226: the body of \<^verbatim>\<open>if model_field:\<close>. The helper
  \<^verbatim>\<open>rest_framework.compat.clean_manytomany_helptext\<close> is not among the sources and is a
  parameter.\<close>

definition relation_field_kwargs ::
  "text_functions \<Rightarrow> (string \<Rightarrow> string) \<Rightarrow> string \<Rightarrow> model_field \<Rightarrow> kwargs \<Rightarrow> kwargs"
  where
  "relation_field_kwargs py clean_manytomany_helptext field_name model_field kwargs =
     (let kwargs = (if verbose_name model_field \<noteq> [] \<and> needs_label py model_field field_name
                    then kwargs(''label'' \<mapsto> VStr (capfirst py (verbose_name model_field)))
                    else kwargs);
          help = clean_manytomany_helptext (help_text model_field);
          kwargs = (if help \<noteq> [] then kwargs(''help_text'' \<mapsto> VStr help) else kwargs);
          kwargs = (if \<not> editable model_field
                    then (kwargs(''read_only'' \<mapsto> VBool True))(''queryset'' := None)
                    else kwargs)
      in if (case kwargs ''read_only'' of Some v \<Rightarrow> truthy v | None \<Rightarrow> False)
         then kwargs
         else
           let kwargs = (if has_default model_field \<or> null model_field
                         then kwargs(''required'' \<mapsto> VBool False)
                         else kwargs);
               kwargs = (if null model_field
                         then kwargs(''allow_null'' \<mapsto> VBool True)
                         else kwargs);
               kwargs = (if validators model_field \<noteq> []
                         then kwargs(''validators'' \<mapsto> VValidators (validators model_field))
                         else kwargs);
               kwargs = (if unique model_field
                         then kwargs(''validators'' \<mapsto>
                                VValidators (get_validators kwargs
                                  @ [UniqueValidator (DefaultManager (model model_field))]))
                         else kwargs)
           in kwargs)"

text \<open>The relation descriptor is the tuple \<^verbatim>\<open>(model_field, related_model, to_many,
  has_through_model)\<close>, with \<^verbatim>\<open>None\<close> for a missing model field.\<close>

type_synonym relation_info = "model_field option \<times> pymodel \<times> bool \<times> bool"

definition get_relation_kwargs ::
  "text_functions \<Rightarrow> (string \<Rightarrow> string) \<Rightarrow> string \<Rightarrow> relation_info \<Rightarrow> error + kwargs"
  where
  "get_relation_kwargs py clean_manytomany_helptext field_name relation_info =
     (case relation_info of (model_field, related_model, to_many, has_through_model) \<Rightarrow>
        (case get_detail_view_name py related_model of
           Inl err \<Rightarrow> Inl err
         | Inr view_name \<Rightarrow>
             let kwargs = [''queryset'' \<mapsto> VManager (DefaultManager related_model),
                           ''view_name'' \<mapsto> VStr view_name];
                 kwargs = (if to_many then kwargs(''many'' \<mapsto> VBool True) else kwargs);
                 kwargs = (if has_through_model
                           then (kwargs(''read_only'' \<mapsto> VBool True))(''queryset'' := None)
                           else kwargs)
             in case model_field of
                  Some model_field \<Rightarrow>
                    Inr (relation_field_kwargs py clean_manytomany_helptext field_name
                           model_field kwargs)
                | None \<Rightarrow> Inr kwargs))"

definition get_nested_relation_kwargs :: "relation_info \<Rightarrow> kwargs" where
  "get_nested_relation_kwargs relation_info =
     (case relation_info of (model_field, related_model, to_many, has_through_model) \<Rightarrow>
        let kwargs = [''read_only'' \<mapsto> VBool True]
        in if to_many then kwargs(''many'' \<mapsto> VBool True) else kwargs)"

definition get_url_kwargs :: "text_functions \<Rightarrow> pymodel \<Rightarrow> error + kwargs" where
  "get_url_kwargs py model_cls =
     (case get_detail_view_name py model_cls of
        Inl err \<Rightarrow> Inl err
      | Inr view_name \<Rightarrow> Inr [''view_name'' \<mapsto> VStr view_name])"

subsection \<open>The text functions on ASCII text\<close>

text \<open>
  On a string of ASCII characters \<^verbatim>\<open>capfirst\<close> upper-cases the first character when it
  is one of the 26 small letters, \<^verbatim>\<open>str.lower\<close> lower-cases the capital letters, and
  \<^verbatim>\<open>str.capitalize\<close> does the first to the first character and the second to the rest.
  \<open>ascii_text\<close> is that restriction of the three functions. It stands for them in the
  concrete instances below only, whose strings are all ASCII; on other strings it is not
  the Python functions, and the general theorems are not about it.
\<close>

definition ascii_upper :: "char \<Rightarrow> char" where
  "ascii_upper c =
     (case map_of (zip ''abcdefghijklmnopqrstuvwxyz'' ''ABCDEFGHIJKLMNOPQRSTUVWXYZ'') c of
        Some u \<Rightarrow> u
      | None \<Rightarrow> c)"

definition ascii_lower :: "char \<Rightarrow> char" where
  "ascii_lower c =
     (case map_of (zip ''ABCDEFGHIJKLMNOPQRSTUVWXYZ'' ''abcdefghijklmnopqrstuvwxyz'') c of
        Some l \<Rightarrow> l
      | None \<Rightarrow> c)"

fun ascii_capfirst :: "string \<Rightarrow> string" where
  "ascii_capfirst [] = []"
| "ascii_capfirst (c # cs) = ascii_upper c # cs"

fun ascii_capitalize :: "string \<Rightarrow> string" where
  "ascii_capitalize [] = []"
| "ascii_capitalize (c # cs) = ascii_upper c # map ascii_lower cs"

definition ascii_text :: text_functions where
  "ascii_text =
     \<lparr>capfirst = ascii_capfirst, capitalize = ascii_capitalize, lower = map ascii_lower\<rparr>"

subsection \<open>An example field\<close>

text \<open>A \<^verbatim>\<open>CharField(max_length=50)\<close> named \<^verbatim>\<open>title\<close> on a model \<^verbatim>\<open>blog.Post\<close>,
  with the \<^verbatim>\<open>MaxLengthValidator(50)\<close> that the field class installs. The concrete
  instances below are variations of it.\<close>

definition example_field :: model_field where
  "example_field =
     \<lparr>field_class = CharField, verbose_name = ''title'', help_text = [],
      max_digits = None, decimal_places = None, editable = True, has_default = False,
      blank = False, null = False, flatchoices = [], max_length = Some 50,
      validators = [Instance MaxLengthValidator (Some 50)], unique = False,
      model = \<lparr>app_label = ''blog'', object_name = ''Post''\<rparr>\<rparr>"

section \<open>Properties\<close>

subsection \<open>Unfolding the stages of \<^verbatim>\<open>get_field_kwargs\<close>\<close>

lemmas class_defs =
  getmro_def isinstance_def object_cls_def RegisterLookupMixin_def Field_def AutoField_def
  CharField_def TextField_def NullBooleanField_def URLField_def EmailField_def SlugField_def
  BaseValidator_def MaxLengthValidator_def MinLengthValidator_def MaxValueValidator_def
  MinValueValidator_def RegexValidator_def URLValidator_def EmailValidator_def
  UniqueValidator_cls_def

lemma ascii_text_sel:
  "capfirst ascii_text = ascii_capfirst"
  "capitalize ascii_text = ascii_capitalize"
  "lower ascii_text = map ascii_lower"
  by (simp_all add: ascii_text_def)

lemmas ascii_text_simps = ascii_text_sel ascii_upper_def ascii_lower_def

lemmas field_kwargs_defs =
  get_field_kwargs_def common_kwargs_def required_kwargs_def validator_kwargs_def
  max_length_kwargs_def limit_kwargs_def first_limit_value_def without_class_def
  implied_validators_removed_def unique_validator_added_def remaining_validators_def
  needs_label_def replace_def ascii_text_simps Let_def

lemma common_kwargs_apply:
  "common_kwargs py field_name model_field k =
     (if k = ''model_field'' then Some (VField model_field)
      else if k = ''label'' then
        (if verbose_name model_field \<noteq> [] \<and> needs_label py model_field field_name
         then Some (VStr (capfirst py (verbose_name model_field))) else None)
      else if k = ''help_text'' then
        (if help_text model_field \<noteq> [] then Some (VStr (help_text model_field)) else None)
      else if k = ''max_digits'' then map_option VInt (max_digits model_field)
      else if k = ''decimal_places'' then map_option VInt (decimal_places model_field)
      else if k = ''style'' then
        (if isinstance (field_class model_field) TextField
         then Some (VDict [(''base_template'', ''textarea.html'')]) else None)
      else None)"
  by (simp add: common_kwargs_def Let_def split: option.split)

lemma required_kwargs_apply:
  "required_kwargs model_field kwargs k =
     (if k = ''allow_blank'' \<and> blank model_field then Some (VBool True)
      else if k = ''allow_null'' \<and> null model_field
                \<and> \<not> isinstance (field_class model_field) NullBooleanField
      then Some (VBool True)
      else if k = ''required''
                \<and> (has_default model_field \<or> blank model_field \<or> null model_field)
      then Some (VBool False)
      else kwargs k)"
  by (simp add: required_kwargs_def Let_def)

lemma max_length_kwargs_apply:
  "fst (max_length_kwargs model_field (kwargs, vs)) k =
     (if k = ''max_length'' \<and> isinstance (field_class model_field) CharField
           \<and> max_length model_field \<noteq> None
      then map_option VInt (max_length model_field) else kwargs k)"
  by (simp add: max_length_kwargs_def split: option.split)

lemma max_length_kwargs_validators:
  "snd (max_length_kwargs model_field (kwargs, vs)) =
     (if isinstance (field_class model_field) CharField \<and> max_length model_field \<noteq> None
      then without_class MaxLengthValidator vs else vs)"
  by (simp add: max_length_kwargs_def split: option.split)

lemma limit_kwargs_apply:
  "fst (limit_kwargs name cls (kwargs, vs)) k =
     (if k = name \<and> first_limit_value cls vs \<noteq> None
      then map_option VInt (first_limit_value cls vs) else kwargs k)"
  by (simp add: limit_kwargs_def split: option.split)

lemma limit_kwargs_validators:
  "snd (limit_kwargs name cls (kwargs, vs)) =
     (if first_limit_value cls vs \<noteq> None then without_class cls vs else vs)"
  by (simp add: limit_kwargs_def split: option.split)

lemma set_implied_validators_removed:
  "set (implied_validators_removed model_field vs) \<subseteq> set vs"
  by (auto simp: implied_validators_removed_def Let_def without_class_def)

lemma max_length_kwargs_fst:
  "fst (max_length_kwargs model_field st) k =
     (if k = ''max_length'' \<and> isinstance (field_class model_field) CharField
           \<and> max_length model_field \<noteq> None
      then map_option VInt (max_length model_field) else fst st k)"
  by (cases st) (auto simp: max_length_kwargs_apply)

lemma max_length_kwargs_snd:
  "snd (max_length_kwargs model_field st) =
     (if isinstance (field_class model_field) CharField \<and> max_length model_field \<noteq> None
      then without_class MaxLengthValidator (snd st) else snd st)"
  by (cases st) (auto simp: max_length_kwargs_validators)

lemma limit_kwargs_fst:
  "fst (limit_kwargs name cls st) k =
     (if k = name \<and> first_limit_value cls (snd st) \<noteq> None
      then map_option VInt (first_limit_value cls (snd st)) else fst st k)"
  by (cases st) (auto simp: limit_kwargs_apply)

lemma limit_kwargs_snd:
  "snd (limit_kwargs name cls st) =
     (if first_limit_value cls (snd st) \<noteq> None then without_class cls (snd st) else snd st)"
  by (cases st) (auto simp: limit_kwargs_validators)

lemma limit_kwargs_snd_subset: "set (snd (limit_kwargs name cls st)) \<subseteq> set (snd st)"
  by (auto simp: limit_kwargs_snd without_class_def)

lemma limit_kwargs_snd_indep:
  "snd st = snd st' \<Longrightarrow> snd (limit_kwargs name cls st) = snd (limit_kwargs name cls st')"
  by (simp only: limit_kwargs_snd)

lemma max_length_kwargs_snd_indep:
  "snd st = snd st' \<Longrightarrow> snd (max_length_kwargs model_field st) = snd (max_length_kwargs model_field st')"
  by (simp only: max_length_kwargs_snd)

lemma validator_kwargs_fst:
  "fst (validator_kwargs model_field st) =
     fst (limit_kwargs ''min_value'' MinValueValidator
           (limit_kwargs ''max_value'' MaxValueValidator
             (limit_kwargs ''min_length'' MinLengthValidator
               (max_length_kwargs model_field st))))"
  by (simp add: validator_kwargs_def Let_def split: prod.split)

lemma validator_kwargs_snd:
  "snd (validator_kwargs model_field st) =
     unique_validator_added model_field
       (implied_validators_removed model_field
         (snd (limit_kwargs ''min_value'' MinValueValidator
           (limit_kwargs ''max_value'' MaxValueValidator
             (limit_kwargs ''min_length'' MinLengthValidator
               (max_length_kwargs model_field st))))))"
  by (simp add: validator_kwargs_def Let_def split: prod.split)

lemma validator_kwargs_other:
  "k \<notin> {''max_length'', ''min_length'', ''max_value'', ''min_value''} \<Longrightarrow>
     fst (validator_kwargs model_field st) k = fst st k"
  by (simp add: validator_kwargs_fst limit_kwargs_fst max_length_kwargs_fst)

lemma validator_kwargs_max_length:
  "fst (validator_kwargs model_field st) ''max_length'' =
     (if isinstance (field_class model_field) CharField \<and> max_length model_field \<noteq> None
      then map_option VInt (max_length model_field) else fst st ''max_length'')"
  by (simp add: validator_kwargs_fst limit_kwargs_fst max_length_kwargs_fst)

lemma validator_kwargs_snd_indep:
  "snd st = snd st' \<Longrightarrow>
     snd (validator_kwargs model_field st) = snd (validator_kwargs model_field st')"
  unfolding validator_kwargs_snd
  by (intro arg_cong[where f="unique_validator_added model_field"]
        arg_cong[where f="implied_validators_removed model_field"]
        limit_kwargs_snd_indep max_length_kwargs_snd_indep)

lemma remaining_validators_eq:
  "snd (validator_kwargs model_field (kwargs, validators model_field)) =
     remaining_validators model_field"
  unfolding remaining_validators_def
  by (rule validator_kwargs_snd_indep) simp

lemma get_field_kwargs_read_only:
  "isinstance (field_class model_field) AutoField \<or> \<not> editable model_field \<Longrightarrow>
     get_field_kwargs py field_name model_field =
       (common_kwargs py field_name model_field)(''read_only'' \<mapsto> VBool True)"
  by (simp add: get_field_kwargs_def Let_def)

lemma get_field_kwargs_choices:
  "\<not> isinstance (field_class model_field) AutoField \<Longrightarrow> editable model_field \<Longrightarrow>
   flatchoices model_field \<noteq> [] \<Longrightarrow>
     get_field_kwargs py field_name model_field =
       (required_kwargs model_field (common_kwargs py field_name model_field))
         (''choices'' \<mapsto> VChoices (flatchoices model_field))"
  by (simp add: get_field_kwargs_def Let_def)

lemma get_field_kwargs_plain:
  "\<not> isinstance (field_class model_field) AutoField \<Longrightarrow> editable model_field \<Longrightarrow>
   flatchoices model_field = [] \<Longrightarrow>
     get_field_kwargs py field_name model_field k =
       (if k = ''validators'' \<and> remaining_validators model_field \<noteq> []
        then Some (VValidators (remaining_validators model_field))
        else fst (validator_kwargs model_field
                    (required_kwargs model_field (common_kwargs py field_name model_field),
                     validators model_field)) k)"
proof -
  assume a: "\<not> isinstance (field_class model_field) AutoField" "editable model_field"
    "flatchoices model_field = []"
  obtain kw vs where st: "validator_kwargs model_field
      (required_kwargs model_field (common_kwargs py field_name model_field),
       validators model_field) = (kw, vs)"
    by (cases "validator_kwargs model_field
      (required_kwargs model_field (common_kwargs py field_name model_field),
       validators model_field)")
  have vs: "vs = remaining_validators model_field"
    using remaining_validators_eq[of model_field
        "required_kwargs model_field (common_kwargs py field_name model_field)"] st
    by simp
  show ?thesis
    using a st vs by (simp add: get_field_kwargs_def Let_def)
qed

lemma get_field_kwargs_cases:
  obtains (read_only) "isinstance (field_class model_field) AutoField \<or> \<not> editable model_field"
  | (choices) "\<not> isinstance (field_class model_field) AutoField" "editable model_field"
      "flatchoices model_field \<noteq> []"
  | (plain) "\<not> isinstance (field_class model_field) AutoField" "editable model_field"
      "flatchoices model_field = []"
  by blast

lemma get_field_kwargs_early_key:
  assumes "k \<notin> {''read_only'', ''required'', ''allow_null'', ''allow_blank'', ''choices'',
                 ''max_length'', ''min_length'', ''max_value'', ''min_value'', ''validators''}"
  shows "get_field_kwargs py field_name model_field k = common_kwargs py field_name model_field k"
proof (cases model_field rule: get_field_kwargs_cases)
  case read_only
  with assms show ?thesis by (simp add: get_field_kwargs_read_only)
next
  case choices
  with assms show ?thesis by (simp add: get_field_kwargs_choices required_kwargs_apply)
next
  case plain
  with assms show ?thesis
    by (simp add: get_field_kwargs_plain validator_kwargs_other required_kwargs_apply)
qed

lemma common_kwargs_dom:
  "dom (common_kwargs py field_name model_field) =
     {''model_field''}
     \<union> (if verbose_name model_field \<noteq> [] \<and> needs_label py model_field field_name
        then {''label''} else {})
     \<union> (if help_text model_field \<noteq> [] then {''help_text''} else {})
     \<union> (if max_digits model_field \<noteq> None then {''max_digits''} else {})
     \<union> (if decimal_places model_field \<noteq> None then {''decimal_places''} else {})
     \<union> (if isinstance (field_class model_field) TextField then {''style''} else {})"
  (is "?L = ?R")
proof (rule set_eqI)
  fix k
  show "k \<in> ?L \<longleftrightarrow> k \<in> ?R"
    unfolding domIff common_kwargs_apply by (simp split: if_splits)
qed

lemma unique_validator_added_subset:
  "set (unique_validator_added model_field vs)
     \<subseteq> insert (UniqueValidator (DefaultManager (model model_field))) (set vs)"
  by (auto simp: unique_validator_added_def)

lemma validator_kwargs_snd_subset:
  "set (snd (validator_kwargs model_field st))
     \<subseteq> insert (UniqueValidator (DefaultManager (model model_field)))
         (set (snd (max_length_kwargs model_field st)))"
proof -
  let ?s1 = "max_length_kwargs model_field st"
  let ?s2 = "limit_kwargs ''min_length'' MinLengthValidator ?s1"
  let ?s3 = "limit_kwargs ''max_value'' MaxValueValidator ?s2"
  let ?s4 = "limit_kwargs ''min_value'' MinValueValidator ?s3"
  have "set (snd ?s4) \<subseteq> set (snd ?s3)" by (rule limit_kwargs_snd_subset)
  also have "\<dots> \<subseteq> set (snd ?s2)" by (rule limit_kwargs_snd_subset)
  also have "\<dots> \<subseteq> set (snd ?s1)" by (rule limit_kwargs_snd_subset)
  finally have "set (implied_validators_removed model_field (snd ?s4)) \<subseteq> set (snd ?s1)"
    using set_implied_validators_removed[of model_field "snd ?s4"] by blast
  then show ?thesis
    unfolding validator_kwargs_snd
    using unique_validator_added_subset[of model_field
        "implied_validators_removed model_field (snd ?s4)"]
    by blast
qed

lemma UniqueValidator_not_MaxLengthValidator:
  "\<not> isinstance (validator_class (UniqueValidator qs)) MaxLengthValidator"
  by (simp add: class_defs)

subsection \<open>Unfolding \<^verbatim>\<open>get_relation_kwargs\<close> and the lookup\<close>

lemma relation_field_kwargs_view_name:
  "relation_field_kwargs py clean field_name model_field kwargs ''view_name'' = kwargs ''view_name''"
  by (simp add: relation_field_kwargs_def Let_def)

lemma relation_field_kwargs_read_only:
  "relation_field_kwargs py clean field_name model_field kwargs ''read_only'' =
     (if \<not> editable model_field then Some (VBool True) else kwargs ''read_only'')"
  by (simp add: relation_field_kwargs_def Let_def)

lemma relation_field_kwargs_queryset:
  "relation_field_kwargs py clean field_name model_field kwargs ''queryset'' =
     (if \<not> editable model_field then None else kwargs ''queryset'')"
  by (simp add: relation_field_kwargs_def Let_def)

lemma relation_field_kwargs_early:
  assumes "\<not> editable model_field \<or> kwargs ''read_only'' = Some (VBool True)"
    and "k \<in> {''required'', ''allow_null'', ''validators''}"
  shows "relation_field_kwargs py clean field_name model_field kwargs k = kwargs k"
  using assms by (auto simp: relation_field_kwargs_def Let_def)

lemma get_relation_kwargs_Inr:
  "get_relation_kwargs py clean field_name (model_field, related_model, to_many, has_through_model) =
     Inr (let kwargs = [''queryset'' \<mapsto> VManager (DefaultManager related_model),
                        ''view_name'' \<mapsto> VStr (lower py (object_name related_model) @ ''-detail'')];
              kwargs = (if to_many then kwargs(''many'' \<mapsto> VBool True) else kwargs);
              kwargs = (if has_through_model
                        then (kwargs(''read_only'' \<mapsto> VBool True))(''queryset'' := None)
                        else kwargs)
          in case model_field of
               Some model_field \<Rightarrow> relation_field_kwargs py clean field_name model_field kwargs
             | None \<Rightarrow> kwargs)"
  by (simp add: get_relation_kwargs_def get_detail_view_name_def format_detail_def Let_def
        split: option.split)

lemma lookup_mro_find:
  "lookup_mro mapping classes =
     (case find (\<lambda>cls. cls \<in> dom mapping) classes of None \<Rightarrow> None | Some cls \<Rightarrow> mapping cls)"
  by (induction classes) simp_all

lemma find_None_disjoint: "find (\<lambda>cls. cls \<in> A) classes = None \<longleftrightarrow> set classes \<inter> A = {}"
  by (auto simp: find_None_iff)

subsection \<open>Read-only fields\<close>

text \<open>
  C1, as the code has it. For a model field that is an \<^verbatim>\<open>AutoField\<close> or whose
  \<^verbatim>\<open>editable\<close> attribute is false, \<^verbatim>\<open>get_field_kwargs\<close> returns a mapping with
  \<^verbatim>\<open>read_only\<close> mapped to true and \<^verbatim>\<open>model_field\<close> mapped to the field. Its other keys
  are exactly those of \<^verbatim>\<open>label\<close>, \<^verbatim>\<open>help_text\<close>, \<^verbatim>\<open>max_digits\<close>,
  \<^verbatim>\<open>decimal_places\<close> and \<^verbatim>\<open>style\<close> whose rule, which stands ahead of the read-only
  return, applies to the field; none of the keys set after the return is present.
\<close>

theorem read_only_field_keys:
  assumes "isinstance (field_class model_field) AutoField \<or> \<not> editable model_field"
  shows "get_field_kwargs py field_name model_field ''read_only'' = Some (VBool True)
    \<and> get_field_kwargs py field_name model_field ''model_field'' = Some (VField model_field)
    \<and> dom (get_field_kwargs py field_name model_field) =
        {''read_only'', ''model_field''}
        \<union> (if verbose_name model_field \<noteq> [] \<and> needs_label py model_field field_name
           then {''label''} else {})
        \<union> (if help_text model_field \<noteq> [] then {''help_text''} else {})
        \<union> (if max_digits model_field \<noteq> None then {''max_digits''} else {})
        \<union> (if decimal_places model_field \<noteq> None then {''decimal_places''} else {})
        \<union> (if isinstance (field_class model_field) TextField then {''style''} else {})"
proof -
  have g: "get_field_kwargs py field_name model_field =
      (common_kwargs py field_name model_field)(''read_only'' \<mapsto> VBool True)"
    using assms by (rule get_field_kwargs_read_only)
  have "get_field_kwargs py field_name model_field ''read_only'' = Some (VBool True)"
    by (simp add: g)
  moreover have "get_field_kwargs py field_name model_field ''model_field'' = Some (VField model_field)"
    by (simp add: g common_kwargs_apply)
  moreover have "dom (get_field_kwargs py field_name model_field) =
      insert ''read_only'' (dom (common_kwargs py field_name model_field))"
    by (simp add: g)
  ultimately show ?thesis
    unfolding common_kwargs_dom by (simp add: insert_commute)
qed

theorem read_only_field_keys_witness:
  "\<not> editable (example_field\<lparr>editable := False, help_text := ''Shown in the form''\<rparr>)
   \<and> dom (get_field_kwargs ascii_text ''title''
            (example_field\<lparr>editable := False, help_text := ''Shown in the form''\<rparr>)) =
       {''read_only'', ''model_field'', ''help_text''}"
  using read_only_field_keys
    [where py = ascii_text and field_name = "''title''"
       and model_field = "example_field\<lparr>editable := False, help_text := ''Shown in the form''\<rparr>"]
  by (simp add: example_field_def needs_label_def replace_def ascii_text_simps
        class_defs insert_commute)

text \<open>
  C1 as the claim words it fails: a field that is not editable and has a help text gets the
  key \<^verbatim>\<open>help_text\<close> besides \<^verbatim>\<open>read_only\<close> and \<^verbatim>\<open>model_field\<close>.
\<close>

theorem read_only_field_keys_counterexample:
  "\<not> editable
       \<lparr>field_class = CharField, verbose_name = ''title'', help_text = ''Shown in the form'',
        max_digits = None, decimal_places = None, editable = False, has_default = False,
        blank = False, null = False, flatchoices = [], max_length = Some 50,
        validators = [], unique = False,
        model = \<lparr>app_label = ''blog'', object_name = ''Post''\<rparr>\<rparr>
   \<and> \<not> dom (get_field_kwargs ascii_text ''title''
       \<lparr>field_class = CharField, verbose_name = ''title'', help_text = ''Shown in the form'',
        max_digits = None, decimal_places = None, editable = False, has_default = False,
        blank = False, null = False, flatchoices = [], max_length = Some 50,
        validators = [], unique = False,
        model = \<lparr>app_label = ''blog'', object_name = ''Post''\<rparr>\<rparr>)
      \<subseteq> {''read_only'', ''model_field''}"
  by (simp add: get_field_kwargs_def common_kwargs_def Let_def)

subsection \<open>Choice fields\<close>

text \<open>
  C2. The mapping returned by \<^verbatim>\<open>get_field_kwargs\<close> never contains \<^verbatim>\<open>choices\<close>
  together with one of \<^verbatim>\<open>max_length\<close>, \<^verbatim>\<open>min_length\<close>, \<^verbatim>\<open>max_value\<close>,
  \<^verbatim>\<open>min_value\<close> or \<^verbatim>\<open>validators\<close>; and for an editable field that is not an
  \<^verbatim>\<open>AutoField\<close> and has a non-empty \<^verbatim>\<open>flatchoices\<close>, the mapping contains
  \<^verbatim>\<open>choices\<close> and none of those keys.
\<close>

theorem choices_exclusive:
  "(''choices'' \<in> dom (get_field_kwargs py field_name model_field) \<longrightarrow>
      dom (get_field_kwargs py field_name model_field)
        \<inter> {''max_length'', ''min_length'', ''max_value'', ''min_value'', ''validators''} = {})
   \<and> (flatchoices model_field \<noteq> [] \<and> editable model_field
        \<and> \<not> isinstance (field_class model_field) AutoField \<longrightarrow>
      ''choices'' \<in> dom (get_field_kwargs py field_name model_field)
      \<and> dom (get_field_kwargs py field_name model_field)
        \<inter> {''max_length'', ''min_length'', ''max_value'', ''min_value'', ''validators''} = {})"
proof (cases model_field rule: get_field_kwargs_cases)
  case read_only
  then show ?thesis
    by (auto simp: domIff get_field_kwargs_read_only common_kwargs_apply)
next
  case choices
  then show ?thesis
    by (simp add: domIff get_field_kwargs_choices required_kwargs_apply common_kwargs_apply)
next
  case plain
  then have "get_field_kwargs py field_name model_field ''choices'' = None"
    by (simp add: get_field_kwargs_plain validator_kwargs_other required_kwargs_apply
          common_kwargs_apply)
  with plain show ?thesis by (simp add: domIff)
qed

theorem choices_exclusive_witness:
  "flatchoices (example_field\<lparr>flatchoices := [(''d'', ''Draft'')]\<rparr>) \<noteq> []
   \<and> editable (example_field\<lparr>flatchoices := [(''d'', ''Draft'')]\<rparr>)
   \<and> \<not> isinstance (field_class (example_field\<lparr>flatchoices := [(''d'', ''Draft'')]\<rparr>)) AutoField
   \<and> ''choices'' \<in> dom (get_field_kwargs ascii_text ''title''
        (example_field\<lparr>flatchoices := [(''d'', ''Draft'')]\<rparr>))
   \<and> dom (get_field_kwargs ascii_text ''title'' (example_field\<lparr>flatchoices := [(''d'', ''Draft'')]\<rparr>))
       \<inter> {''max_length'', ''min_length'', ''max_value'', ''min_value'', ''validators''} = {}"
  using choices_exclusive [where py = ascii_text and field_name = "''title''"
      and model_field = "example_field\<lparr>flatchoices := [(''d'', ''Draft'')]\<rparr>"]
  by (simp add: example_field_def class_defs)

subsection \<open>Maximum length of a \<^verbatim>\<open>CharField\<close>\<close>

text \<open>
  C3. For an editable \<^verbatim>\<open>CharField\<close> with \<^verbatim>\<open>max_length\<close> 50 and empty
  \<^verbatim>\<open>flatchoices\<close> that is not an \<^verbatim>\<open>AutoField\<close>, the mapping has \<^verbatim>\<open>max_length\<close>
  mapped to 50, and whatever validator list it has under \<^verbatim>\<open>validators\<close> holds no instance
  of \<^verbatim>\<open>MaxLengthValidator\<close>.
\<close>

theorem char_field_max_length:
  assumes "editable model_field"
    and "\<not> isinstance (field_class model_field) AutoField"
    and "isinstance (field_class model_field) CharField"
    and "max_length model_field = Some 50"
    and "flatchoices model_field = []"
  shows "get_field_kwargs py field_name model_field ''max_length'' = Some (VInt 50)
    \<and> (\<forall>vs. get_field_kwargs py field_name model_field ''validators'' = Some (VValidators vs) \<longrightarrow>
          (\<forall>v \<in> set vs. \<not> isinstance (validator_class v) MaxLengthValidator))"
proof -
  have ml: "get_field_kwargs py field_name model_field ''max_length'' = Some (VInt 50)"
    using assms by (simp add: get_field_kwargs_plain validator_kwargs_max_length)
  have sub: "set (remaining_validators model_field)
      \<subseteq> insert (UniqueValidator (DefaultManager (model model_field)))
          (set (without_class MaxLengthValidator (validators model_field)))"
    using validator_kwargs_snd_subset[of model_field "(Map.empty, validators model_field)"] assms
    by (simp add: remaining_validators_def max_length_kwargs_snd)
  have no_max: "\<forall>v \<in> set (remaining_validators model_field).
      \<not> isinstance (validator_class v) MaxLengthValidator"
  proof
    fix v assume "v \<in> set (remaining_validators model_field)"
    with sub have "v = UniqueValidator (DefaultManager (model model_field))
        \<or> v \<in> set (without_class MaxLengthValidator (validators model_field))"
      by blast
    then show "\<not> isinstance (validator_class v) MaxLengthValidator"
      using UniqueValidator_not_MaxLengthValidator by (auto simp: without_class_def)
  qed
  have "\<forall>vs. get_field_kwargs py field_name model_field ''validators'' = Some (VValidators vs) \<longrightarrow>
      vs = remaining_validators model_field"
    using assms
    by (simp add: get_field_kwargs_plain validator_kwargs_other required_kwargs_apply
          common_kwargs_apply)
  with ml no_max show ?thesis by blast
qed

theorem char_field_max_length_witness:
  "editable (example_field\<lparr>validators := [Instance MaxLengthValidator (Some 50), validate_slug]\<rparr>)
   \<and> \<not> isinstance (field_class
         (example_field\<lparr>validators := [Instance MaxLengthValidator (Some 50), validate_slug]\<rparr>))
         AutoField
   \<and> isinstance (field_class
         (example_field\<lparr>validators := [Instance MaxLengthValidator (Some 50), validate_slug]\<rparr>))
         CharField
   \<and> max_length
        (example_field\<lparr>validators := [Instance MaxLengthValidator (Some 50), validate_slug]\<rparr>)
        = Some 50
   \<and> flatchoices
        (example_field\<lparr>validators := [Instance MaxLengthValidator (Some 50), validate_slug]\<rparr>)
        = []
   \<and> get_field_kwargs ascii_text ''title''
        (example_field\<lparr>validators := [Instance MaxLengthValidator (Some 50), validate_slug]\<rparr>)
        ''max_length'' = Some (VInt 50)
   \<and> get_field_kwargs ascii_text ''title''
        (example_field\<lparr>validators := [Instance MaxLengthValidator (Some 50), validate_slug]\<rparr>)
        ''validators'' = Some (VValidators [validate_slug])
   \<and> \<not> isinstance (validator_class validate_slug) MaxLengthValidator"
proof -
  let ?f = "example_field\<lparr>validators := [Instance MaxLengthValidator (Some 50), validate_slug]\<rparr>"
  have v: "get_field_kwargs ascii_text ''title'' ?f ''validators'' = Some (VValidators [validate_slug])"
    by (simp add: field_kwargs_defs example_field_def class_defs)
  have h: "editable ?f" "\<not> isinstance (field_class ?f) AutoField"
    "isinstance (field_class ?f) CharField" "max_length ?f = Some 50" "flatchoices ?f = []"
    by (simp_all add: example_field_def class_defs)
  from char_field_max_length [OF h, where py = ascii_text and field_name = "''title''"] v h
  show ?thesis
    by simp
qed

subsection \<open>Labels\<close>

text \<open>
  C4. The mapping returned by \<^verbatim>\<open>get_field_kwargs\<close> has the key \<^verbatim>\<open>label\<close> exactly
  when the verbose name is non-empty and its \<^verbatim>\<open>capfirst\<close> form differs from the default
  label, which is the field name with underscores replaced by spaces and then capitalized;
  the value is then the \<^verbatim>\<open>capfirst\<close> form of the verbose name. This holds whatever
  \<^verbatim>\<open>capfirst\<close> and \<^verbatim>\<open>str.capitalize\<close> do to a string.
\<close>

theorem label_iff:
  "(''label'' \<in> dom (get_field_kwargs py field_name model_field) \<longleftrightarrow>
      verbose_name model_field \<noteq> []
      \<and> capfirst py (verbose_name model_field)
          \<noteq> capitalize py (replace CHR ''_'' CHR '' '' field_name))
   \<and> (''label'' \<in> dom (get_field_kwargs py field_name model_field) \<longrightarrow>
      get_field_kwargs py field_name model_field ''label''
        = Some (VStr (capfirst py (verbose_name model_field))))"
proof -
  have "get_field_kwargs py field_name model_field ''label'' =
      common_kwargs py field_name model_field ''label''"
    by (rule get_field_kwargs_early_key) simp
  then show ?thesis
    by (simp add: domIff common_kwargs_apply needs_label_def)
qed

theorem label_iff_witness:
  "''label'' \<in> dom (get_field_kwargs ascii_text ''title''
       (example_field\<lparr>verbose_name := ''post title''\<rparr>))
   \<and> get_field_kwargs ascii_text ''title'' (example_field\<lparr>verbose_name := ''post title''\<rparr>)
       ''label'' = Some (VStr ''Post title'')
   \<and> ''label'' \<notin> dom (get_field_kwargs ascii_text ''post_title''
         (example_field\<lparr>verbose_name := ''post title''\<rparr>))
   \<and> capitalize ascii_text (replace CHR ''_'' CHR '' '' ''URL_path'') = ''Url path''
   \<and> get_field_kwargs ascii_text ''URL_path'' (example_field\<lparr>verbose_name := ''URL path''\<rparr>)
       ''label'' = Some (VStr ''URL path'')"
  using label_iff [where py = ascii_text and field_name = "''title''"
      and model_field = "example_field\<lparr>verbose_name := ''post title''\<rparr>"]
    label_iff [where py = ascii_text and field_name = "''post_title''"
      and model_field = "example_field\<lparr>verbose_name := ''post title''\<rparr>"]
    label_iff [where py = ascii_text and field_name = "''URL_path''"
      and model_field = "example_field\<lparr>verbose_name := ''URL path''\<rparr>"]
  by (simp add: example_field_def replace_def ascii_text_simps)

subsection \<open>Lookup along the method resolution order\<close>

text \<open>
  C5. Indexing a \<^verbatim>\<open>ClassLookupDict\<close>: when no class in the method resolution order of
  the key's class (of its \<^verbatim>\<open>_proxy_class\<close>, when it has one) is a key of the mapping, a
  \<^verbatim>\<open>KeyError\<close> is raised; otherwise the result is the mapping's value for the first class
  of that order that is a key.
\<close>

theorem getitem_mro:
  "(set (getmro (lookup_base_class key)) \<inter> dom mapping = {} \<longrightarrow>
      getitem mapping key =
        Inl (KeyError [''Class %s not found in lookup.'',
                       cls_name (last (getmro (lookup_base_class key)))]))
   \<and> (set (getmro (lookup_base_class key)) \<inter> dom mapping \<noteq> {} \<longrightarrow>
      (\<exists>cls v. find (\<lambda>c. c \<in> dom mapping) (getmro (lookup_base_class key)) = Some cls
          \<and> mapping cls = Some v \<and> getitem mapping key = Inr v))"
proof (cases "find (\<lambda>c. c \<in> dom mapping) (getmro (lookup_base_class key))")
  case None
  then have "set (getmro (lookup_base_class key)) \<inter> dom mapping = {}"
    by (simp add: find_None_disjoint)
  with None show ?thesis
    by (simp add: getitem_def lookup_mro_find)
next
  case (Some cls)
  then have in_dom: "cls \<in> dom mapping" and in_mro: "cls \<in> set (getmro (lookup_base_class key))"
    by (auto simp: find_Some_iff)
  then obtain v where v: "mapping cls = Some v" by auto
  from in_dom in_mro have "set (getmro (lookup_base_class key)) \<inter> dom mapping \<noteq> {}" by auto
  with Some v show ?thesis
    by (simp add: getitem_def lookup_mro_find)
qed

theorem getitem_mro_witness:
  "set (getmro (lookup_base_class \<lparr>key_class = URLValidator, proxy_class = None\<rparr>))
     \<inter> dom [Field \<mapsto> ''ModelField'', CharField \<mapsto> ''CharField''] = {}
   \<and> getitem [Field \<mapsto> ''ModelField'', CharField \<mapsto> ''CharField'']
        \<lparr>key_class = URLValidator, proxy_class = None\<rparr>
       = Inl (KeyError [''Class %s not found in lookup.'', ''object''])
   \<and> set (getmro (lookup_base_class \<lparr>key_class = object_cls, proxy_class = Some EmailField\<rparr>))
     \<inter> dom [Field \<mapsto> ''ModelField'', CharField \<mapsto> ''CharField''] \<noteq> {}
   \<and> getitem [Field \<mapsto> ''ModelField'', CharField \<mapsto> ''CharField'']
        \<lparr>key_class = object_cls, proxy_class = Some EmailField\<rparr>
       = Inr ''CharField''"
  using getitem_mro [of "\<lparr>key_class = URLValidator, proxy_class = None\<rparr>"
      "[Field \<mapsto> ''ModelField'', CharField \<mapsto> ''CharField'']"]
    getitem_mro [of "\<lparr>key_class = object_cls, proxy_class = Some EmailField\<rparr>"
      "[Field \<mapsto> ''ModelField'', CharField \<mapsto> ''CharField'']"]
  by (simp add: lookup_base_class_def class_defs)

subsection \<open>Detail view names\<close>

text \<open>
  C6, as the code has it. \<^verbatim>\<open>get_detail_view_name\<close> returns the lower-cased type name of
  the model followed by \<^verbatim>\<open>-detail\<close>. The app label is handed to the formatting but the
  format string does not name it, so the result is the same for every app label. There is
  no error path. The lower-casing is that of \<^verbatim>\<open>str.lower\<close>, whatever it does to the name.
\<close>

theorem get_detail_view_name_model_name:
  "get_detail_view_name py model_cls = Inr (lower py (object_name model_cls) @ ''-detail'')
   \<and> get_detail_view_name py (model_cls\<lparr>app_label := other_label\<rparr>)
       = get_detail_view_name py model_cls"
  by (simp add: get_detail_view_name_def format_detail_def)

theorem get_detail_view_name_model_name_witness:
  "get_detail_view_name ascii_text \<lparr>app_label = ''blog'', object_name = ''Post''\<rparr> = Inr ''post-detail''"
  using get_detail_view_name_model_name
    [where py = ascii_text and model_cls = "\<lparr>app_label = ''blog'', object_name = ''Post''\<rparr>"
       and other_label = "''shop''"]
  by (simp add: ascii_text_simps)

text \<open>
  C6 as the claim words it fails: two models with the same type name and different app
  labels get the same view name, in which neither app label occurs.
\<close>

theorem get_detail_view_name_counterexample:
  "get_detail_view_name ascii_text \<lparr>app_label = ''auth'', object_name = ''User''\<rparr> = Inr ''user-detail''
   \<and> get_detail_view_name ascii_text \<lparr>app_label = ''blog'', object_name = ''User''\<rparr> = Inr ''user-detail''"
  by (simp add: get_detail_view_name_def format_detail_def ascii_text_simps)

subsection \<open>Relations\<close>

text \<open>
  C7. When the relation has a through model, or its model field is present and not
  editable, \<^verbatim>\<open>get_relation_kwargs\<close> returns a mapping with \<^verbatim>\<open>read_only\<close> mapped to
  true and without \<^verbatim>\<open>queryset\<close>, and none of \<^verbatim>\<open>required\<close>, \<^verbatim>\<open>allow_null\<close> and
  \<^verbatim>\<open>validators\<close> is added.
\<close>

theorem relation_read_only:
  assumes "has_through_model \<or> (\<exists>f. model_field = Some f \<and> \<not> editable f)"
  shows "\<exists>kwargs.
      get_relation_kwargs py clean field_name
        (model_field, related_model, to_many, has_through_model) = Inr kwargs
      \<and> kwargs ''read_only'' = Some (VBool True)
      \<and> ''queryset'' \<notin> dom kwargs
      \<and> ''required'' \<notin> dom kwargs
      \<and> ''allow_null'' \<notin> dom kwargs
      \<and> ''validators'' \<notin> dom kwargs"
proof (cases model_field)
  case None
  with assms have "has_through_model" by simp
  with None show ?thesis
    by (simp add: get_relation_kwargs_Inr Let_def domIff)
next
  case (Some f)
  show ?thesis
  proof (cases has_through_model)
    case True
    with Some show ?thesis
      by (simp add: get_relation_kwargs_Inr Let_def domIff relation_field_kwargs_read_only
            relation_field_kwargs_queryset relation_field_kwargs_early)
  next
    case False
    with assms Some have "\<not> editable f" by simp
    with Some False show ?thesis
      by (simp add: get_relation_kwargs_Inr Let_def domIff relation_field_kwargs_read_only
            relation_field_kwargs_queryset relation_field_kwargs_early)
  qed
qed

theorem relation_read_only_witness:
  "\<not> editable (example_field\<lparr>editable := False\<rparr>)
   \<and> (\<exists>kwargs.
        get_relation_kwargs ascii_text (\<lambda>text. text) ''author''
          (Some (example_field\<lparr>editable := False\<rparr>),
           \<lparr>app_label = ''auth'', object_name = ''User''\<rparr>, False, False) = Inr kwargs
        \<and> kwargs ''read_only'' = Some (VBool True)
        \<and> ''queryset'' \<notin> dom kwargs
        \<and> ''required'' \<notin> dom kwargs
        \<and> ''allow_null'' \<notin> dom kwargs
        \<and> ''validators'' \<notin> dom kwargs)"
  using relation_read_only [where py = ascii_text and has_through_model = False
      and model_field = "Some (example_field\<lparr>editable := False\<rparr>)"
      and clean = "\<lambda>text. text" and field_name = "''author''"
      and related_model = "\<lparr>app_label = ''auth'', object_name = ''User''\<rparr>"
      and to_many = False]
  by (simp add: example_field_def)

text \<open>
  C9. For every input, the mapping returned by \<^verbatim>\<open>get_relation_kwargs\<close> contains
  \<^verbatim>\<open>view_name\<close>, and it never contains both \<^verbatim>\<open>queryset\<close> and \<^verbatim>\<open>read_only\<close>.
\<close>

theorem relation_view_name_queryset:
  "\<exists>kwargs.
      get_relation_kwargs py clean field_name
        (model_field, related_model, to_many, has_through_model) = Inr kwargs
      \<and> ''view_name'' \<in> dom kwargs
      \<and> \<not> (''queryset'' \<in> dom kwargs \<and> ''read_only'' \<in> dom kwargs)"
proof (cases model_field)
  case None
  then show ?thesis
    by (simp add: get_relation_kwargs_Inr Let_def domIff)
next
  case (Some f)
  then show ?thesis
    by (simp add: get_relation_kwargs_Inr Let_def domIff relation_field_kwargs_read_only
          relation_field_kwargs_queryset relation_field_kwargs_view_name)
qed

theorem relation_view_name_queryset_witness:
  "\<exists>kwargs.
      get_relation_kwargs ascii_text (\<lambda>text. text) ''tags''
        (None, \<lparr>app_label = ''blog'', object_name = ''Tag''\<rparr>, True, True) = Inr kwargs
      \<and> ''view_name'' \<in> dom kwargs
      \<and> \<not> (''queryset'' \<in> dom kwargs \<and> ''read_only'' \<in> dom kwargs)"
  using relation_view_name_queryset [where py = ascii_text and clean = "\<lambda>text. text"
      and field_name = "''tags''"
      and model_field = None
      and related_model = "\<lparr>app_label = ''blog'', object_name = ''Tag''\<rparr>"
      and to_many = True and has_through_model = True]
  by simp

subsection \<open>Nullable boolean fields and the validator list\<close>

text \<open>
  C8. For an editable \<^verbatim>\<open>NullBooleanField\<close> with \<^verbatim>\<open>null\<close> set that is not an
  \<^verbatim>\<open>AutoField\<close>, the mapping has \<^verbatim>\<open>required\<close> mapped to false and has no
  \<^verbatim>\<open>allow_null\<close> key.
\<close>

theorem null_boolean_field:
  assumes "editable model_field"
    and "\<not> isinstance (field_class model_field) AutoField"
    and "isinstance (field_class model_field) NullBooleanField"
    and "null model_field"
  shows "get_field_kwargs py field_name model_field ''required'' = Some (VBool False)
    \<and> ''allow_null'' \<notin> dom (get_field_kwargs py field_name model_field)"
proof (cases "flatchoices model_field = []")
  case True
  with assms show ?thesis
    by (simp add: domIff get_field_kwargs_plain validator_kwargs_other required_kwargs_apply
          common_kwargs_apply)
next
  case False
  with assms show ?thesis
    by (simp add: domIff get_field_kwargs_choices required_kwargs_apply common_kwargs_apply)
qed

theorem null_boolean_field_witness:
  "editable (example_field\<lparr>field_class := NullBooleanField, null := True\<rparr>)
   \<and> \<not> isinstance (field_class (example_field\<lparr>field_class := NullBooleanField, null := True\<rparr>))
         AutoField
   \<and> isinstance (field_class (example_field\<lparr>field_class := NullBooleanField, null := True\<rparr>))
         NullBooleanField
   \<and> null (example_field\<lparr>field_class := NullBooleanField, null := True\<rparr>)
   \<and> get_field_kwargs ascii_text ''flag'' (example_field\<lparr>field_class := NullBooleanField, null := True\<rparr>)
        ''required'' = Some (VBool False)
   \<and> ''allow_null'' \<notin> dom (get_field_kwargs ascii_text ''flag''
        (example_field\<lparr>field_class := NullBooleanField, null := True\<rparr>))"
  using null_boolean_field
    [where py = ascii_text and field_name = "''flag''"
       and model_field = "example_field\<lparr>field_class := NullBooleanField, null := True\<rparr>"]
  by (simp add: example_field_def class_defs)

text \<open>
  C10. For an editable field with empty \<^verbatim>\<open>flatchoices\<close> that is not an
  \<^verbatim>\<open>AutoField\<close>, the mapping has the key \<^verbatim>\<open>validators\<close> exactly when the validator
  list left after the extraction of the limits, the removal of the URL, email and slug
  validators and the addition of the uniqueness validator is non-empty; the value is then
  that list, and an empty list is never stored under the key.
\<close>

theorem validators_key_iff:
  assumes "editable model_field"
    and "\<not> isinstance (field_class model_field) AutoField"
    and "flatchoices model_field = []"
  shows "(''validators'' \<in> dom (get_field_kwargs py field_name model_field) \<longleftrightarrow>
            remaining_validators model_field \<noteq> [])
    \<and> (''validators'' \<in> dom (get_field_kwargs py field_name model_field) \<longrightarrow>
          get_field_kwargs py field_name model_field ''validators''
            = Some (VValidators (remaining_validators model_field)))
    \<and> get_field_kwargs py field_name model_field ''validators'' \<noteq> Some (VValidators [])"
  using assms
  by (simp add: domIff get_field_kwargs_plain validator_kwargs_other required_kwargs_apply
        common_kwargs_apply)

theorem validators_key_iff_witness:
  "editable (example_field\<lparr>unique := True\<rparr>)
   \<and> \<not> isinstance (field_class (example_field\<lparr>unique := True\<rparr>)) AutoField
   \<and> flatchoices (example_field\<lparr>unique := True\<rparr>) = []
   \<and> remaining_validators (example_field\<lparr>unique := True\<rparr>)
       = [UniqueValidator (DefaultManager \<lparr>app_label = ''blog'', object_name = ''Post''\<rparr>)]
   \<and> get_field_kwargs ascii_text ''title'' (example_field\<lparr>unique := True\<rparr>) ''validators''
       = Some (VValidators
           [UniqueValidator (DefaultManager \<lparr>app_label = ''blog'', object_name = ''Post''\<rparr>)])
   \<and> remaining_validators example_field = []
   \<and> ''validators'' \<notin> dom (get_field_kwargs ascii_text ''title'' example_field)"
proof -
  have r1: "remaining_validators (example_field\<lparr>unique := True\<rparr>)
       = [UniqueValidator (DefaultManager \<lparr>app_label = ''blog'', object_name = ''Post''\<rparr>)]"
    by (simp add: field_kwargs_defs example_field_def class_defs)
  have r2: "remaining_validators example_field = []"
    by (simp add: field_kwargs_defs example_field_def class_defs)
  have h1: "editable (example_field\<lparr>unique := True\<rparr>)"
    "\<not> isinstance (field_class (example_field\<lparr>unique := True\<rparr>)) AutoField"
    "flatchoices (example_field\<lparr>unique := True\<rparr>) = []"
    by (simp_all add: example_field_def class_defs)
  have h2: "editable example_field" "\<not> isinstance (field_class example_field) AutoField"
    "flatchoices example_field = []"
    by (simp_all add: example_field_def class_defs)
  from validators_key_iff [OF h1, where py = ascii_text and field_name = "''title''"]
    validators_key_iff [OF h2, where py = ascii_text and field_name = "''title''"]
    r1 r2 h1
  show ?thesis by simp
qed

end
